theory Spec2Isabelle
  imports Complex_Main "HOL-Library.Word"
begin

section \<open>The node interface of the quantum binary decision tree\<close>

text \<open>
  The development follows \<^verbatim>\<open>include/qbdt_node_interface.hpp\<close>: the class
  \<^verbatim>\<open>QBdtNodeInterface\<close>, its three constructors, \<^verbatim>\<open>SetZero\<close> and the
  virtual operations whose bodies in the base class only raise \<^verbatim>\<open>std::out_of_range\<close>
  (some of them after a test \<^verbatim>\<open>if (!depth) return;\<close>).

  A node holds a complex \<^verbatim>\<open>scale\<close> and the array \<^verbatim>\<open>branches[2U]\<close> of shared
  pointers to nodes. A shared pointer is an \<open>option\<close>: \<open>None\<close> is \<^verbatim>\<open>nullptr\<close>.
  The two slots of the array are the two fields \<open>branches0\<close> and \<open>branches1\<close>.
  The mutex \<^verbatim>\<open>mtx\<close> of the parallel build carries no data and is left out.
\<close>

datatype QBdtNodeInterface =
  Node (scale: complex)
       (branches0: "QBdtNodeInterface option")
       (branches1: "QBdtNodeInterface option")

type_synonym QBdtNodeInterfacePtr = "QBdtNodeInterface option"

text \<open>
  Modelled from the spec: the macros \<^verbatim>\<open>ZERO_CMPLX\<close> and \<^verbatim>\<open>ONE_CMPLX\<close> come from
  \<^verbatim>\<open>common/qrack_functions.hpp\<close>, which is not among the source files. The spec
  says of SetZero that it "sets \<^verbatim>\<open>scale = 0\<close>", and its concrete scenario writes the
  scale of a root as 1: the two constants are the complex numbers 0 and 1. No statement
  below depends on the value of \<^verbatim>\<open>ONE_CMPLX\<close>.
\<close>

definition ZERO_CMPLX :: complex where
  "ZERO_CMPLX = 0"

definition ONE_CMPLX :: complex where
  "ONE_CMPLX = 1"

subsection \<open>Constructors\<close>

text \<open>
  \<^verbatim>\<open>QBdtNodeInterface()\<close>, \<^verbatim>\<open>QBdtNodeInterface(const complex& scl)\<close> and
  \<^verbatim>\<open>QBdtNodeInterface(const complex& scl, QBdtNodeInterfacePtr* b)\<close>. The third
  reads \<^verbatim>\<open>b[0U]\<close> and \<^verbatim>\<open>b[1U]\<close>; the array it is given is the pair \<open>b\<close>.
\<close>

definition QBdtNodeInterface_default :: QBdtNodeInterface where
  "QBdtNodeInterface_default = Node ONE_CMPLX None None"

definition QBdtNodeInterface_scl :: "complex \<Rightarrow> QBdtNodeInterface" where
  "QBdtNodeInterface_scl scl = Node scl None None"

definition QBdtNodeInterface_scl_b ::
  "complex \<Rightarrow> QBdtNodeInterfacePtr \<times> QBdtNodeInterfacePtr \<Rightarrow> QBdtNodeInterface" where
  "QBdtNodeInterface_scl_b scl b = Node scl (fst b) (snd b)"

subsection \<open>Errors and arguments\<close>

text \<open>
  Every failure of the class is a \<^verbatim>\<open>throw std::out_of_range(msg)\<close>; the error value
  keeps the message. An operation returns \<open>Inl\<close> of the error when it throws and
  \<open>Inr\<close> of the state it leaves behind when it returns.
\<close>

datatype error = out_of_range string

text \<open>
  The matrix arguments depend on the build: one pointer \<^verbatim>\<open>const complex* mtrx\<close>, or,
  with \<^verbatim>\<open>ENABLE_COMPLEX_X2\<close>, the four packed columns \<^verbatim>\<open>mtrxCol1\<close>,
  \<^verbatim>\<open>mtrxCol2\<close>, \<^verbatim>\<open>mtrxColShuff1\<close>, \<^verbatim>\<open>mtrxColShuff2\<close> of type
  \<^verbatim>\<open>complex2\<close> (a pair of complex numbers).
\<close>

type_synonym complex2 = "complex \<times> complex"

datatype mtrx_args =
  mtrx "complex list"
| mtrxCols complex2 complex2 complex2 complex2

text \<open>
  \<^verbatim>\<open>bitLenInt\<close> is an unsigned machine integer whose width is fixed in a header that
  is not among the source files: it is a word of any length \<open>'l\<close>, and \<^verbatim>\<open>!depth\<close>
  is \<open>depth = 0\<close>. The parallel build (\<^verbatim>\<open>ENABLE_QBDT_CPU_PARALLEL && ENABLE_PTHREAD\<close>)
  gives several operations one more argument \<^verbatim>\<open>parDepth\<close>; the bodies never read
  it. The model has the argument, so that a statement for every \<open>parDepth\<close> covers both
  builds.
\<close>

subsection \<open>SetZero\<close>

text \<open>
  \<^verbatim>\<open>SetZero\<close> assigns \<^verbatim>\<open>ZERO_CMPLX\<close> to the scale. The sequential build then
  clears both slots. The parallel build (\<open>par\<close>) clears a slot only when it is not
  null, holding the child's mutex meanwhile.
\<close>

definition SetZero :: "bool \<Rightarrow> QBdtNodeInterface \<Rightarrow> QBdtNodeInterface" where
  "SetZero par n =
     (case n of Node _ br0 br1 \<Rightarrow>
        let scl = ZERO_CMPLX in
        if par then
          let br0' = (if br0 \<noteq> None then None else br0);
              br1' = (if br1 \<noteq> None then None else br1)
          in Node scl br0' br1'
        else Node scl None None)"

subsection \<open>Operations the base class does not implement\<close>

definition PushStateVector ::
  "QBdtNodeInterface \<Rightarrow> mtrx_args \<Rightarrow> QBdtNodeInterfacePtr \<Rightarrow> QBdtNodeInterfacePtr \<Rightarrow>
   'l::len word \<Rightarrow> 'l word \<Rightarrow>
   error + (QBdtNodeInterface \<times> QBdtNodeInterfacePtr \<times> QBdtNodeInterfacePtr)" where
  "PushStateVector n m b0 b1 depth parDepth =
     Inl (out_of_range
       ''QBdtNodeInterface::PushStateVector() not implemented! (You probably set QRACK_QBDT_SEPARABILITY_THRESHOLD too high.)'')"

definition InsertAtDepth ::
  "QBdtNodeInterface \<Rightarrow> QBdtNodeInterfacePtr \<Rightarrow> 'l::len word \<Rightarrow> 'l word \<Rightarrow> 'l word \<Rightarrow>
   error + QBdtNodeInterface" where
  "InsertAtDepth n b depth size' parDepth =
     Inl (out_of_range
       ''QBdtNodeInterface::InsertAtDepth() not implemented! (You probably set QRACK_QBDT_SEPARABILITY_THRESHOLD too high.)'')"

definition ShallowClone :: "QBdtNodeInterface \<Rightarrow> error + QBdtNodeInterfacePtr" where
  "ShallowClone n =
     Inl (out_of_range
       ''QBdtNodeInterface::ShallowClone() not implemented! (You probably set QRACK_QBDT_SEPARABILITY_THRESHOLD too high.)'')"

definition PopStateVector ::
  "QBdtNodeInterface \<Rightarrow> 'l::len word \<Rightarrow> 'l word \<Rightarrow> error + QBdtNodeInterface" where
  "PopStateVector n depth parDepth =
     (if depth = 0 then Inr n
      else Inl (out_of_range
       ''QBdtNodeInterface::PopStateVector() not implemented! (You probably set QRACK_QBDT_SEPARABILITY_THRESHOLD too high.)''))"

definition Branch ::
  "QBdtNodeInterface \<Rightarrow> 'l::len word \<Rightarrow> 'l word \<Rightarrow> error + QBdtNodeInterface" where
  "Branch n depth parDepth =
     (if depth = 0 then Inr n
      else Inl (out_of_range
       ''QBdtNodeInterface::Branch() not implemented! (You probably set QRACK_QBDT_SEPARABILITY_THRESHOLD too high.)''))"

definition Prune ::
  "QBdtNodeInterface \<Rightarrow> 'l::len word \<Rightarrow> 'l word \<Rightarrow> error + QBdtNodeInterface" where
  "Prune n depth parDepth =
     (if depth = 0 then Inr n
      else Inl (out_of_range
       ''QBdtNodeInterface::Prune() not implemented! (You probably set QRACK_QBDT_SEPARABILITY_THRESHOLD too high.)''))"

definition Normalize :: "QBdtNodeInterface \<Rightarrow> 'l::len word \<Rightarrow> error + QBdtNodeInterface" where
  "Normalize n depth =
     (if depth = 0 then Inr n
      else Inl (out_of_range
       ''QBdtNodeInterface::Normalize() not implemented! (You probably set QRACK_QBDT_SEPARABILITY_THRESHOLD too high.)''))"

definition Apply2x2 ::
  "QBdtNodeInterface \<Rightarrow> mtrx_args \<Rightarrow> 'l::len word \<Rightarrow> error + QBdtNodeInterface" where
  "Apply2x2 n m depth =
     (if depth = 0 then Inr n
      else Inl (out_of_range
       ''QBdtNodeInterface::Apply2x2() not implemented! (You probably set QRACK_QBDT_SEPARABILITY_THRESHOLD too high.)''))"

definition PushSpecial ::
  "QBdtNodeInterface \<Rightarrow> mtrx_args \<Rightarrow> QBdtNodeInterfacePtr \<Rightarrow>
   error + (QBdtNodeInterface \<times> QBdtNodeInterfacePtr)" where
  "PushSpecial n m b1 =
     Inl (out_of_range
       ''QBdtNodeInterface::PushSpecial() not implemented! (You probably called PushStateVector() past terminal depth.)'')"

subsection \<open>Invariant I1 (zero-closure)\<close>

text \<open>
  I1 at one node: a node whose scale is 0 has two empty branch slots. \<open>I1_reachable\<close>
  asks it of the node and of every node reachable through its branches.
\<close>

definition I1 :: "QBdtNodeInterface \<Rightarrow> bool" where
  "I1 n \<longleftrightarrow> (scale n = 0 \<longrightarrow> branches0 n = None \<and> branches1 n = None)"

fun I1_reachable :: "QBdtNodeInterface \<Rightarrow> bool" where
  "I1_reachable (Node scl br0 br1) =
     (I1 (Node scl br0 br1) \<and>
      (case br0 of None \<Rightarrow> True | Some c \<Rightarrow> I1_reachable c) \<and>
      (case br1 of None \<Rightarrow> True | Some c \<Rightarrow> I1_reachable c))"

subsection \<open>Equality of nodes and of node references\<close>

text \<open>
  Modelled from the spec: the header only declares \<^verbatim>\<open>isEqual\<close>,
  \<^verbatim>\<open>operator==\<close> and \<^verbatim>\<open>operator!=\<close>; their bodies are not among the source files.
  The spec (Equality/Comparison) says: isEqual is "true iff \<^verbatim>\<open>scale\<close> matches (within
  tolerance) and both branch pairs are recursively equal (or both empty, or both absent
  per I1's zero-closure)"; reference equality "delegates to \<^verbatim>\<open>isEqual\<close>; two empty
  references are equal; an empty and a non-empty reference are unequal". The tolerance
  is left open by the spec and is the parameter \<open>eps\<close>: two scales match when the
  modulus of their difference is at most \<open>eps\<close>. The argument of \<^verbatim>\<open>isEqual\<close> is a
  reference, as in the declaration \<^verbatim>\<open>bool isEqual(QBdtNodeInterfacePtr r)\<close>; an
  empty one is unequal to the node.
\<close>

fun isEqual :: "real \<Rightarrow> QBdtNodeInterface \<Rightarrow> QBdtNodeInterfacePtr \<Rightarrow> bool"
  and operator_eq :: "real \<Rightarrow> QBdtNodeInterfacePtr \<Rightarrow> QBdtNodeInterfacePtr \<Rightarrow> bool" where
  "isEqual eps n None = False"
| "isEqual eps (Node s l r) (Some (Node s' l' r')) =
     (cmod (s - s') \<le> eps \<and> operator_eq eps l l' \<and> operator_eq eps r r')"
| "operator_eq eps None None = True"
| "operator_eq eps None (Some b) = False"
| "operator_eq eps (Some a) rhs = isEqual eps a rhs"

definition operator_neq :: "real \<Rightarrow> QBdtNodeInterfacePtr \<Rightarrow> QBdtNodeInterfacePtr \<Rightarrow> bool" where
  "operator_neq eps lhs rhs = (\<not> operator_eq eps lhs rhs)"

section \<open>Properties\<close>

subsection \<open>SetZero\<close>

text \<open>
  C1. After \<^verbatim>\<open>SetZero()\<close> the scale of the node is 0 and both branch slots are null,
  whatever the scale and the branches were before, in the sequential and in the
  parallel build.
\<close>

theorem SetZero_clears:
  "scale (SetZero par n) = 0 \<and>
   branches0 (SetZero par n) = None \<and>
   branches1 (SetZero par n) = None"
  by (cases n) (simp add: SetZero_def ZERO_CMPLX_def Let_def)

subsection \<open>Operations that return at depth 0\<close>

text \<open>
  C4. \<^verbatim>\<open>Branch\<close> with depth 0 and \<^verbatim>\<open>PopStateVector\<close> with depth 0 are no-ops:
  each returns without an error and leaves the node, its scale and both branch slots,
  as it was.
\<close>

theorem Branch_PopStateVector_depth_0:
  "Branch n (0 :: 'l::len word) parDepth = Inr n \<and>
   PopStateVector n (0 :: 'l word) parDepth = Inr n"
  by (simp add: Branch_def PopStateVector_def)

subsection \<open>Operations that raise\<close>

text \<open>
  C7. \<^verbatim>\<open>PushSpecial\<close> on the base interface fails with an error for every matrix
  and every branch argument: it never returns normally.
\<close>

theorem PushSpecial_raises:
  "PushSpecial n m b1 =
     Inl (out_of_range
       ''QBdtNodeInterface::PushSpecial() not implemented! (You probably called PushStateVector() past terminal depth.)'')"
  by (simp add: PushSpecial_def)

text \<open>
  C10. On the base interface \<^verbatim>\<open>PushStateVector\<close> raises the error for every
  combination of arguments, depth 0 included, whereas \<^verbatim>\<open>Branch\<close>, \<^verbatim>\<open>Prune\<close>,
  \<^verbatim>\<open>Normalize\<close>, \<^verbatim>\<open>Apply2x2\<close> and \<^verbatim>\<open>PopStateVector\<close> with depth 0 return
  without an error.
\<close>

theorem PushStateVector_raises_at_every_depth:
  "PushStateVector n m b0 b1 (depth :: 'l::len word) parDepth =
     Inl (out_of_range
       ''QBdtNodeInterface::PushStateVector() not implemented! (You probably set QRACK_QBDT_SEPARABILITY_THRESHOLD too high.)'') \<and>
   PushStateVector n m b0 b1 (0 :: 'l word) parDepth =
     Inl (out_of_range
       ''QBdtNodeInterface::PushStateVector() not implemented! (You probably set QRACK_QBDT_SEPARABILITY_THRESHOLD too high.)'') \<and>
   Branch n (0 :: 'l word) parDepth = Inr n \<and>
   Prune n (0 :: 'l word) parDepth = Inr n \<and>
   Normalize n (0 :: 'l word) = Inr n \<and>
   Apply2x2 n m (0 :: 'l word) = Inr n \<and>
   PopStateVector n (0 :: 'l word) parDepth = Inr n"
  by (simp add: PushStateVector_def Branch_def Prune_def Normalize_def Apply2x2_def
      PopStateVector_def)

text \<open>
  C3, as the claim states it, fails: \<^verbatim>\<open>Normalize(1)\<close> on a node of the base
  interface raises.
\<close>

theorem Normalize_depth_1_raises:
  "Normalize QBdtNodeInterface_default (1 :: 16 word) =
     Inl (out_of_range
       ''QBdtNodeInterface::Normalize() not implemented! (You probably set QRACK_QBDT_SEPARABILITY_THRESHOLD too high.)'')"
  by (simp add: Normalize_def)

text \<open>
  C3, amended. \<^verbatim>\<open>Normalize(0)\<close> completes without an error on every node and
  leaves it unchanged; on a node of the base interface \<^verbatim>\<open>Normalize(depth)\<close> with a
  depth other than 0 raises \<^verbatim>\<open>std::out_of_range\<close>.
\<close>

theorem Normalize_succeeds_only_at_depth_0:
  "Normalize n (0 :: 'l::len word) = Inr n \<and>
   (depth \<noteq> 0 \<longrightarrow>
      Normalize n (depth :: 'l word) =
        Inl (out_of_range
          ''QBdtNodeInterface::Normalize() not implemented! (You probably set QRACK_QBDT_SEPARABILITY_THRESHOLD too high.)''))"
  by (simp add: Normalize_def)

theorem Normalize_succeeds_only_at_depth_0_witness:
  "Normalize (Node 0 None None) (0 :: 16 word) = Inr (Node 0 None None) \<and>
   Normalize (Node 0 None None) (2 :: 16 word) =
     Inl (out_of_range
       ''QBdtNodeInterface::Normalize() not implemented! (You probably set QRACK_QBDT_SEPARABILITY_THRESHOLD too high.)'')"
  using Normalize_succeeds_only_at_depth_0 [where n = "Node 0 None None" and depth = "2 :: 16 word"]
  by simp

text \<open>
  C2, as the claim states it, fails: \<^verbatim>\<open>Branch(0)\<close> on a node of the base interface
  returns without an error and changes nothing.
\<close>

theorem Branch_depth_0_returns:
  "Branch QBdtNodeInterface_default (0 :: 16 word) 1 = Inr QBdtNodeInterface_default"
  by (simp add: Branch_def)

text \<open>
  C2, amended. On the base interface \<^verbatim>\<open>InsertAtDepth\<close>, \<^verbatim>\<open>ShallowClone\<close>,
  \<^verbatim>\<open>PushStateVector\<close> and \<^verbatim>\<open>PushSpecial\<close> raise \<^verbatim>\<open>std::out_of_range\<close>, each
  with a message that names the operation, for all arguments. \<^verbatim>\<open>Branch\<close>,
  \<^verbatim>\<open>Prune\<close>, \<^verbatim>\<open>Normalize\<close>, \<^verbatim>\<open>Apply2x2\<close> and \<^verbatim>\<open>PopStateVector\<close> raise in
  the same way for every depth other than 0; with depth 0 they return without an error
  and leave the node unchanged. (\<^verbatim>\<open>RemoveSeparableAtDepth\<close> is only declared in the
  header; nothing is said of it.)
\<close>

theorem unimplemented_operations_raise:
  "InsertAtDepth n b (depth :: 'l::len word) size' parDepth =
     Inl (out_of_range
       ''QBdtNodeInterface::InsertAtDepth() not implemented! (You probably set QRACK_QBDT_SEPARABILITY_THRESHOLD too high.)'') \<and>
   ShallowClone n =
     Inl (out_of_range
       ''QBdtNodeInterface::ShallowClone() not implemented! (You probably set QRACK_QBDT_SEPARABILITY_THRESHOLD too high.)'') \<and>
   PushStateVector n m b0 b1 depth parDepth =
     Inl (out_of_range
       ''QBdtNodeInterface::PushStateVector() not implemented! (You probably set QRACK_QBDT_SEPARABILITY_THRESHOLD too high.)'') \<and>
   PushSpecial n m b1 =
     Inl (out_of_range
       ''QBdtNodeInterface::PushSpecial() not implemented! (You probably called PushStateVector() past terminal depth.)'') \<and>
   (depth \<noteq> 0 \<longrightarrow>
      Branch n depth parDepth =
        Inl (out_of_range
       ''QBdtNodeInterface::Branch() not implemented! (You probably set QRACK_QBDT_SEPARABILITY_THRESHOLD too high.)'') \<and>
      Prune n depth parDepth =
        Inl (out_of_range
       ''QBdtNodeInterface::Prune() not implemented! (You probably set QRACK_QBDT_SEPARABILITY_THRESHOLD too high.)'') \<and>
      Normalize n depth =
        Inl (out_of_range
       ''QBdtNodeInterface::Normalize() not implemented! (You probably set QRACK_QBDT_SEPARABILITY_THRESHOLD too high.)'') \<and>
      Apply2x2 n m depth =
        Inl (out_of_range
       ''QBdtNodeInterface::Apply2x2() not implemented! (You probably set QRACK_QBDT_SEPARABILITY_THRESHOLD too high.)'') \<and>
      PopStateVector n depth parDepth =
        Inl (out_of_range
       ''QBdtNodeInterface::PopStateVector() not implemented! (You probably set QRACK_QBDT_SEPARABILITY_THRESHOLD too high.)'')) \<and>
   Branch n (0 :: 'l word) parDepth = Inr n \<and>
   Prune n (0 :: 'l word) parDepth = Inr n \<and>
   Normalize n (0 :: 'l word) = Inr n \<and>
   Apply2x2 n m (0 :: 'l word) = Inr n \<and>
   PopStateVector n (0 :: 'l word) parDepth = Inr n"
  by (simp add: InsertAtDepth_def ShallowClone_def PushStateVector_def PushSpecial_def
      Branch_def Prune_def Normalize_def Apply2x2_def PopStateVector_def)

theorem unimplemented_operations_raise_witness:
  "Branch (Node 1 None None) (3 :: 16 word) 1 =
     Inl (out_of_range
       ''QBdtNodeInterface::Branch() not implemented! (You probably set QRACK_QBDT_SEPARABILITY_THRESHOLD too high.)'') \<and>
   Prune (Node 1 None None) (3 :: 16 word) 1 =
     Inl (out_of_range
       ''QBdtNodeInterface::Prune() not implemented! (You probably set QRACK_QBDT_SEPARABILITY_THRESHOLD too high.)'') \<and>
   Apply2x2 (Node 1 None None) (mtrx [1, 0, 0, 1]) (3 :: 16 word) =
     Inl (out_of_range
       ''QBdtNodeInterface::Apply2x2() not implemented! (You probably set QRACK_QBDT_SEPARABILITY_THRESHOLD too high.)'') \<and>
   PopStateVector (Node 1 None None) (3 :: 16 word) 1 =
     Inl (out_of_range
       ''QBdtNodeInterface::PopStateVector() not implemented! (You probably set QRACK_QBDT_SEPARABILITY_THRESHOLD too high.)'') \<and>
   ShallowClone (Node 1 None None) =
     Inl (out_of_range
       ''QBdtNodeInterface::ShallowClone() not implemented! (You probably set QRACK_QBDT_SEPARABILITY_THRESHOLD too high.)'')"
  using unimplemented_operations_raise
    [where n = "Node 1 None None" and depth = "3 :: 16 word" and parDepth = 1
       and m = "mtrx [1, 0, 0, 1]"]
  by simp

subsection \<open>Invariant I1\<close>

lemma I1_reachable_no_branches: "I1_reachable (Node scl None None)"
  by (simp add: I1_def)

lemma SetZero_eq: "SetZero par n = Node 0 None None"
  by (cases n) (simp add: SetZero_def ZERO_CMPLX_def Let_def)

lemma I1_reachable_scl_b:
  "I1_reachable (QBdtNodeInterface_scl_b scl b) \<longleftrightarrow>
     (scl = 0 \<longrightarrow> b = (None, None)) \<and>
     (\<forall>c. fst b = Some c \<or> snd b = Some c \<longrightarrow> I1_reachable c)"
proof (cases b)
  case (Pair x y)
  then show ?thesis
    by (cases x; cases y) (auto simp add: QBdtNodeInterface_scl_b_def I1_def)
qed

lemma returns_unchanged:
  "Branch n depth parDepth = Inr n' \<Longrightarrow> n' = n"
  "Prune n depth parDepth = Inr n' \<Longrightarrow> n' = n"
  "Normalize n depth = Inr n' \<Longrightarrow> n' = n"
  "Apply2x2 n m depth = Inr n' \<Longrightarrow> n' = n"
  "PopStateVector n depth parDepth = Inr n' \<Longrightarrow> n' = n"
  by (simp_all add: Branch_def Prune_def Normalize_def Apply2x2_def PopStateVector_def
      split: if_splits)

text \<open>
  C6, as the claim states it, fails: the constructor that takes a scale and branches
  stores what it is given, so a scale of 0 with a branch that is not null gives a node
  that breaks I1.
\<close>

theorem scl_b_constructor_breaks_I1:
  "\<not> I1 (QBdtNodeInterface_scl_b ZERO_CMPLX (Some QBdtNodeInterface_default, None))"
  by (simp add: I1_def QBdtNodeInterface_scl_b_def ZERO_CMPLX_def)

text \<open>
  C6, amended. I1 holds at every reachable node of a node built by the default
  constructor or by the constructor that takes only a scale, and of any node after
  \<^verbatim>\<open>SetZero\<close>. The constructor that takes a scale and branches stores its arguments
  unchecked: I1 holds at every reachable node of its result exactly when the scale is
  not 0 or both given branches are null, and I1 holds at every reachable node of the
  given branches. \<^verbatim>\<open>Branch\<close>, \<^verbatim>\<open>Prune\<close>, \<^verbatim>\<open>Normalize\<close>, \<^verbatim>\<open>Apply2x2\<close> and
  \<^verbatim>\<open>PopStateVector\<close> of the base interface, where they return, keep I1.
\<close>

theorem I1_constructors_SetZero_operations:
  "I1_reachable QBdtNodeInterface_default \<and>
   I1_reachable (QBdtNodeInterface_scl scl) \<and>
   I1_reachable (SetZero par n) \<and>
   (I1_reachable (QBdtNodeInterface_scl_b scl b) \<longleftrightarrow>
      (scl = 0 \<longrightarrow> b = (None, None)) \<and>
      (\<forall>c. fst b = Some c \<or> snd b = Some c \<longrightarrow> I1_reachable c)) \<and>
   (I1_reachable n \<longrightarrow>
      (\<forall>n'. Branch n depth parDepth = Inr n' \<or> Prune n depth parDepth = Inr n' \<or>
            Normalize n depth = Inr n' \<or> Apply2x2 n m depth = Inr n' \<or>
            PopStateVector n depth parDepth = Inr n' \<longrightarrow> I1_reachable n'))"
proof -
  have c1: "I1_reachable QBdtNodeInterface_default"
    by (simp only: QBdtNodeInterface_default_def I1_reachable_no_branches)
  have c2: "I1_reachable (QBdtNodeInterface_scl scl)"
    by (simp only: QBdtNodeInterface_scl_def I1_reachable_no_branches)
  have c3: "I1_reachable (SetZero par n)"
    by (simp only: SetZero_eq I1_reachable_no_branches)
  have c5: "I1_reachable n \<longrightarrow>
      (\<forall>n'. Branch n depth parDepth = Inr n' \<or> Prune n depth parDepth = Inr n' \<or>
            Normalize n depth = Inr n' \<or> Apply2x2 n m depth = Inr n' \<or>
            PopStateVector n depth parDepth = Inr n' \<longrightarrow> I1_reachable n')"
    using returns_unchanged by blast
  from c1 c2 c3 I1_reachable_scl_b c5 show ?thesis by blast
qed

theorem I1_constructors_SetZero_operations_witness:
  "I1_reachable (SetZero True (Node 1 (Some (Node 0 (Some (Node 1 None None)) None)) None)) \<and>
   I1_reachable (QBdtNodeInterface_scl_b 0 (None, None)) \<and>
   I1_reachable (QBdtNodeInterface_scl_b 1 (Some (Node 1 None None), None))"
  using
    I1_constructors_SetZero_operations
      [where par = True and n = "Node 1 (Some (Node 0 (Some (Node 1 None None)) None)) None"
         and scl = 0 and b = "(None, None)" and depth = "0 :: 16 word" and parDepth = 1
         and m = "mtrx [1, 0, 0, 1]"]
    I1_constructors_SetZero_operations
      [where par = True and n = "Node 1 None None"
         and scl = 1 and b = "(Some (Node 1 None None), None)" and depth = "0 :: 16 word"
         and parDepth = 1 and m = "mtrx [1, 0, 0, 1]"]
  by (simp add: I1_def)

subsection \<open>Equality\<close>

lemma isEqual_refl: "0 \<le> eps \<Longrightarrow> isEqual eps n (Some n)"
proof (induction n)
  case (Node s l r)
  have l: "operator_eq eps l l" using Node by (cases l) auto
  have r: "operator_eq eps r r" using Node by (cases r) auto
  show ?case using Node.prems l r by simp
qed

lemma isEqual_operator_eq_sym:
  "isEqual eps a r = (case r of None \<Rightarrow> False | Some b \<Rightarrow> isEqual eps b (Some a))"
  "operator_eq eps lhs rhs = operator_eq eps rhs lhs"
proof (induction eps a r and eps lhs rhs rule: isEqual_operator_eq.induct)
  case (2 eps s l r s' l' r')
  then show ?case by (simp add: norm_minus_commute)
next
  case (5 eps a rhs)
  then show ?case by (cases rhs) (simp_all split: option.splits)
qed simp_all

text \<open>
  C5. \<^verbatim>\<open>==\<close> over node references delegates to \<^verbatim>\<open>isEqual\<close> and \<^verbatim>\<open>!=\<close> is
  its negation; two empty references are equal; an empty and a non-empty reference are
  unequal, on either side and whatever the scale and the branches of the node are.
\<close>

theorem operator_eq_null_handling:
  "operator_eq eps (Some a) rhs = isEqual eps a rhs \<and>
   operator_neq eps lhs rhs = (\<not> operator_eq eps lhs rhs) \<and>
   operator_eq eps None None \<and>
   \<not> operator_neq eps None None \<and>
   \<not> operator_eq eps None (Some n) \<and>
   \<not> operator_eq eps (Some n) None \<and>
   operator_neq eps None (Some n) \<and>
   operator_neq eps (Some n) None"
  by (simp add: operator_neq_def)

text \<open>
  C8. \<^verbatim>\<open>isEqual\<close> is reflexive and symmetric: \<open>isEqual(n, n)\<close> is true for every
  node, and \<open>isEqual(a, b) = isEqual(b, a)\<close> for every two nodes. The tolerance is
  any number that is not negative.
\<close>

theorem isEqual_reflexive_symmetric:
  "0 \<le> eps \<Longrightarrow>
   isEqual eps n (Some n) \<and> isEqual eps a (Some b) = isEqual eps b (Some a)"
  using isEqual_refl [of eps n] isEqual_operator_eq_sym(1) [of eps a "Some b"] by simp

theorem isEqual_reflexive_symmetric_witness:
  "isEqual (1 / 2) (Node 1 (Some (Node \<i> None None)) None)
     (Some (Node 1 (Some (Node \<i> None None)) None)) \<and>
   isEqual (1 / 2) (Node 1 None None) (Some (Node 0 None None)) =
   isEqual (1 / 2) (Node 0 None None) (Some (Node 1 None None))"
  using isEqual_reflexive_symmetric
    [where eps = "1 / 2" and n = "Node 1 (Some (Node \<i> None None)) None"
       and a = "Node 1 None None" and b = "Node 0 None None"]
  by simp

end
